theory Spec2Isabelle
  imports Main
begin

section \<open>Concept URIs of conceptnet5/nodes.py\<close>

text \<open>
  A shallow embedding of \<^verbatim>\<open>conceptnet5/nodes.py\<close>. A Python string is modelled as
  a \<^typ>\<open>string\<close>, the list of the bytes of its UTF-8 encoding, so an ASCII character is
  one \<^typ>\<open>char\<close> and every other character is a run of bytes with the top bit set.
  The module imports five functions from \<^verbatim>\<open>conceptnet5.language\<close> and
  \<^verbatim>\<open>conceptnet5.uri\<close>; they are parameters of the embedding, collected in the record
  \<open>collab\<close>. They are typed as total functions: an exception raised inside one of them
  is not modelled.
\<close>

subsection \<open>Python string primitives\<close>

text \<open>
  \<^verbatim>\<open>s.lower()\<close> on ASCII text: the capital letters are replaced, every other byte
  stays. What \<^verbatim>\<open>str.lower\<close> does to a character outside ASCII is not in this table.
\<close>

definition lower_char :: "char \<Rightarrow> char" where
  "lower_char c =
     (case map_of (zip ''ABCDEFGHIJKLMNOPQRSTUVWXYZ'' ''abcdefghijklmnopqrstuvwxyz'') c of
        Some l \<Rightarrow> l
      | None \<Rightarrow> c)"

definition lower :: "string \<Rightarrow> string" where
  "lower s = map lower_char s"

text \<open>\<^verbatim>\<open>s.replace('_', ' ')\<close>\<close>

definition replace_underscores :: "string \<Rightarrow> string" where
  "replace_underscores s = map (\<lambda>c. if c = CHR ''_'' then CHR '' '' else c) s"

text \<open>\<^verbatim>\<open>sep.join(xs)\<close>\<close>

fun join :: "string \<Rightarrow> string list \<Rightarrow> string" where
  "join sep [] = []"
| "join sep [x] = x"
| "join sep (x # y # ys) = x @ sep @ join sep (y # ys)"

text \<open>\<^verbatim>\<open>s.startswith(p)\<close>\<close>

definition startswith :: "string \<Rightarrow> string \<Rightarrow> bool" where
  "startswith s p = (take (length p) s = p)"

text \<open>\<^verbatim>\<open>s.split(c)\<close> for a one-character separator: empty pieces are kept.\<close>

fun split_on :: "char \<Rightarrow> string \<Rightarrow> string list" where
  "split_on c [] = [[]]"
| "split_on c (x # xs) =
     (if x = c then [] # split_on c xs
      else (case split_on c xs of [] \<Rightarrow> [[x]] | w # ws \<Rightarrow> (x # w) # ws))"

datatype py_error = IndexError | NotImplementedError string

subsection \<open>The language registry\<close>

definition LCODE_ALIASES :: "(string \<times> string) list" where
  "LCODE_ALIASES =
     [(''cmn'', ''zh''), (''yue'', ''zh''), (''zh_tw'', ''zh''), (''zh_cn'', ''zh''),
      (''zh-tw'', ''zh''), (''zh-cn'', ''zh''),
      (''nds-de'', ''nds''), (''nds-nl'', ''nds''),
      (''zsm'', ''ms''), (''id'', ''ms''),
      (''nn'', ''no''), (''nb'', ''no''),
      (''bs'', ''sh''), (''hr'', ''sh''), (''sr'', ''sh''), (''hbs'', ''sh''),
      (''sr-latn'', ''sh''), (''sr-cyrl'', ''sh''),
      (''arb'', ''ar''), (''arz'', ''ar''), (''ary'', ''ar''), (''ckb'', ''ku''),
      (''mvf'', ''mn''), (''tl'', ''fil''), (''vro'', ''et''), (''sgs'', ''lt''),
      (''ciw'', ''oj''), (''xal'', ''xwo''), (''ffm'', ''ff'')]"

text \<open>
  Lines 542 to 544 of \<^verbatim>\<open>standardized_concept_uri\<close>:
  \<^verbatim>\<open>lang = lang.lower(); if lang in LCODE_ALIASES: lang = LCODE_ALIASES[lang]\<close>.
  \<^verbatim>\<open>str.lower\<close> belongs to the Python runtime and works on all of Unicode, so the
  canonicalization takes the lowercasing function as a parameter.
\<close>

definition canonical_lang_with :: "(string \<Rightarrow> string) \<Rightarrow> string \<Rightarrow> string" where
  "canonical_lang_with str_lower lang =
     (let lang = str_lower lang in
      case map_of LCODE_ALIASES lang of Some l \<Rightarrow> l | None \<Rightarrow> lang)"

text \<open>The canonicalization with the ASCII case mapping, for codes written in ASCII.\<close>

definition canonical_lang :: "string \<Rightarrow> string" where
  "canonical_lang lang = canonical_lang_with lower lang"

text \<open>
  The two facts about \<^verbatim>\<open>str.lower\<close> that the canonicalization relies on: lowercasing
  a lowercased string changes nothing, and on a string of ASCII characters it is the ASCII
  case mapping.
\<close>

definition is_ascii :: "string \<Rightarrow> bool" where
  "is_ascii s = list_all (\<lambda>c. \<not> digit7 c) s"

definition lowers_like_python :: "(string \<Rightarrow> string) \<Rightarrow> bool" where
  "lowers_like_python str_lower \<longleftrightarrow>
     (\<forall>s. str_lower (str_lower s) = str_lower s)
     \<and> (\<forall>s. is_ascii s \<longrightarrow> str_lower s = lower s)"

text \<open>
  A lowercasing function that knows one character outside ASCII: the Kelvin sign U+212A,
  bytes \<^verbatim>\<open>e2 84 aa\<close>, which \<^verbatim>\<open>str.lower\<close> turns into the letter \<^verbatim>\<open>k\<close>.
\<close>

fun lower_kelvin :: "string \<Rightarrow> string" where
  "lower_kelvin (a # b # c # s) =
     (if a = CHR 0xE2 \<and> b = CHR 0x84 \<and> c = CHR 0xAA then CHR ''k'' # lower_kelvin s
      else lower_char a # lower_kelvin (b # c # s))"
| "lower_kelvin (a # s) = lower_char a # lower_kelvin s"
| "lower_kelvin [] = []"

subsection \<open>The imported collaborators\<close>

record collab =
  simple_tokenize :: "string \<Rightarrow> string list"
  english_filter :: "string list \<Rightarrow> string list"
  concept_uri :: "string \<Rightarrow> string \<Rightarrow> string list \<Rightarrow> string"
  split_uri :: "string \<Rightarrow> string list"
  parse_possible_compound_uri :: "string \<Rightarrow> string \<Rightarrow> string list"

subsection \<open>The functions of nodes.py\<close>

definition standardize_text ::
  "collab \<Rightarrow> string \<Rightarrow> (string list \<Rightarrow> string list) option \<Rightarrow> string" where
  "standardize_text C text token_filter =
     (let tokens = simple_tokenize C (replace_underscores text);
          tokens = (case token_filter of None \<Rightarrow> tokens | Some f \<Rightarrow> f tokens)
      in join ''_'' tokens)"

text \<open>
  The variadic \<^verbatim>\<open>*more\<close> is a list whose items are strings or \<^verbatim>\<open>None\<close>. The filter
  is chosen from the argument \<^verbatim>\<open>lang\<close> as passed, before it is lowercased.
\<close>

definition standardized_concept_uri ::
  "collab \<Rightarrow> string \<Rightarrow> string \<Rightarrow> string option list \<Rightarrow> string" where
  "standardized_concept_uri C lang text more' =
     (let token_filter = (if lang = ''en'' then Some (english_filter C) else None);
          lang = canonical_lang lang;
          norm_text = standardize_text C text token_filter;
          more_text = concat (map (\<lambda>item. case item of
                                      None \<Rightarrow> []
                                    | Some i \<Rightarrow> [standardize_text C i token_filter]) more')
      in concept_uri C lang norm_text more_text)"

text \<open>
  \<^verbatim>\<open>re.match(r'([^(]+) \(([^)]+)\)', topic)\<close>: the first group cannot hold an opening
  parenthesis and is followed by a space and one, so it ends one character before the
  first opening parenthesis of the string; the second group cannot hold a closing
  parenthesis and is followed by one, so it ends at the first closing parenthesis after
  that. The result is the pair of groups.
\<close>

definition re_match_topic :: "string \<Rightarrow> (string \<times> string) option" where
  "re_match_topic topic =
     (let before = takeWhile (\<lambda>c. c \<noteq> CHR ''('') topic;
          from_paren = dropWhile (\<lambda>c. c \<noteq> CHR ''('') topic
      in if from_paren = [] \<or> length before < 2 \<or> last before \<noteq> CHR '' '' then None
         else
           (let inside = takeWhile (\<lambda>c. c \<noteq> CHR '')'') (tl from_paren);
                from_close = dropWhile (\<lambda>c. c \<noteq> CHR '')'') (tl from_paren)
            in if inside = [] \<or> from_close = [] then None
               else Some (butlast before, inside)))"

definition topic_to_concept :: "collab \<Rightarrow> string \<Rightarrow> string \<Rightarrow> string" where
  "topic_to_concept C language topic =
     (let topic = replace_underscores topic in
      case re_match_topic topic of
        None \<Rightarrow> standardized_concept_uri C language topic []
      | Some (g1, g2) \<Rightarrow>
          standardized_concept_uri C language g1 [Some ''n'', Some ''wp'', Some g2])"

definition standardized_concept_name :: "string \<Rightarrow> string \<Rightarrow> py_error + string" where
  "standardized_concept_name lang text =
     Inl (NotImplementedError
       ''standardized_concept_name has been removed. Use standardize_text instead.'')"

definition normalized_concept_name :: "string \<Rightarrow> string \<Rightarrow> py_error + string" where
  "normalized_concept_name = standardized_concept_name"

text \<open>
  \<^verbatim>\<open>get_uri_language\<close> calls itself on whatever the compound parser returns first, so
  it is a partial function: \<open>None\<close> is "does not return". A returned value is the
  \<^verbatim>\<open>IndexError\<close> of \<^verbatim>\<open>[0]\<close> or \<^verbatim>\<open>[1]\<close>, or the language, or Python's \<^verbatim>\<open>None\<close>.
  The recursion limit of the interpreter is not modelled.
\<close>

partial_function (option) get_uri_language ::
  "collab \<Rightarrow> string \<Rightarrow> (py_error + string option) option" where
  "get_uri_language C uri =
     (if startswith uri ''/a/'' then
        (case parse_possible_compound_uri C ''a'' uri of
           [] \<Rightarrow> Some (Inl IndexError)
         | first # _ \<Rightarrow> get_uri_language C first)
      else if startswith uri ''/c/'' then
        (case split_uri C uri of
           _ # l # _ \<Rightarrow> Some (Inr (Some l))
         | _ \<Rightarrow> Some (Inl IndexError))
      else Some (Inr None))"

definition valid_concept_name :: "collab \<Rightarrow> string \<Rightarrow> bool" where
  "valid_concept_name C text = (standardize_text C text None \<noteq> [])"

subsection \<open>Reference collaborators\<close>

text \<open>
  Modelled from the spec: the tokenizer \<^verbatim>\<open>simple_tokenize\<close> of
  \<^verbatim>\<open>conceptnet5.language.token_utils\<close>, which is not among the sources at hand. The spec
  describes it as producing "a finite ordered sequence of lowercase word tokens from
  arbitrary text, preserving combining diacritics and splitting on whitespace/punctuation
  boundaries". A word character is an ASCII letter or digit; every other ASCII character
  ends the current token and is dropped. The bytes of a character outside ASCII are kept
  in the token as they are, with no Unicode normalization and no case folding, so the
  model stands for the tokenizer on ASCII text only.
\<close>

definition is_word_char :: "char \<Rightarrow> bool" where
  "is_word_char c =
     (c \<in> set ''0123456789ABCDEFGHIJKLMNOPQRSTUVWXYZabcdefghijklmnopqrstuvwxyz'' \<or> digit7 c)"

fun tokens_from :: "string \<Rightarrow> string \<Rightarrow> string list" where
  "tokens_from cur [] = (if cur = [] then [] else [cur])"
| "tokens_from cur (c # cs) =
     (if is_word_char c then tokens_from (cur @ [lower_char c]) cs
      else (if cur = [] then [] else [cur]) @ tokens_from [] cs)"

definition simple_tokenize_model :: "string \<Rightarrow> string list" where
  "simple_tokenize_model text = tokens_from [] text"

text \<open>
  Modelled from the spec: the filter \<^verbatim>\<open>english_filter\<close> of
  \<^verbatim>\<open>conceptnet5.language.english\<close>, which is not among the sources at hand. The spec
  describes it as one that "removes closed-class function words and normalizes some verb
  forms"; the examples in the docstrings of \<^verbatim>\<open>nodes.py\<close> turn \<^verbatim>\<open>a big dog\<close> into
  \<^verbatim>\<open>big_dog\<close>, \<^verbatim>\<open>to go\<close> into \<^verbatim>\<open>go\<close> and \<^verbatim>\<open>this is a test\<close> into \<^verbatim>\<open>this_is_test\<close>.
  The model drops the articles and then a leading infinitive marker.
\<close>

definition english_filter_model :: "string list \<Rightarrow> string list" where
  "english_filter_model tokens =
     dropWhile (\<lambda>t. t = ''to'')
       (filter (\<lambda>t. t \<noteq> ''a'' \<and> t \<noteq> ''an'' \<and> t \<noteq> ''the'') tokens)"

text \<open>
  Modelled from the spec: \<^verbatim>\<open>concept_uri\<close> and \<^verbatim>\<open>split_uri\<close> of \<^verbatim>\<open>conceptnet5.uri\<close>,
  which is not among the sources at hand. The spec describes "construction of
  slash-separated paths, splitting": the identifier is "assembled from the literal
  concept marker, canonical language, and the standardized segments, each as one path
  component", and \<^verbatim>\<open>split(uri) -> segments\<close> gives the components back.
\<close>

definition concept_uri_model :: "string \<Rightarrow> string \<Rightarrow> string list \<Rightarrow> string" where
  "concept_uri_model lang text more' = ''/'' @ join ''/'' (''c'' # lang # text # more')"

definition split_uri_model :: "string \<Rightarrow> string list" where
  "split_uri_model uri = split_on CHR ''/'' (dropWhile (\<lambda>c. c = CHR ''/'') uri)"

text \<open>
  The spec gives no syntax for compound identifiers, so the compound parser stays a
  parameter of the reference collaborators. Two stand-ins fill the place at concrete
  inputs: a parser that finds no compound and returns the identifier alone, and one for
  compounds written as the operator followed by a single sub-identifier
  (\<^verbatim>\<open>/a\<close> followed by \<^verbatim>\<open>/c/en/cat\<close>).
\<close>

definition single_uri :: "string \<Rightarrow> string \<Rightarrow> string list" where
  "single_uri kind uri = [uri]"

definition first_nested :: "string \<Rightarrow> string \<Rightarrow> string list" where
  "first_nested kind uri = [drop (length kind + 1) uri]"

definition model_collab :: "(string \<Rightarrow> string \<Rightarrow> string list) \<Rightarrow> collab" where
  "model_collab parse =
     \<lparr>simple_tokenize = simple_tokenize_model,
      english_filter = english_filter_model,
      concept_uri = concept_uri_model,
      split_uri = split_uri_model,
      parse_possible_compound_uri = parse\<rparr>"

subsection \<open>The pattern of a topic\<close>

text \<open>
  The pattern of \<^verbatim>\<open>topic_to_concept\<close> read as a statement about the string: one or more
  characters other than an opening parenthesis, a space, an opening parenthesis, one or
  more characters other than a closing parenthesis, a closing parenthesis, and anything
  after it.
\<close>

definition topic_pattern :: "string \<Rightarrow> string \<Rightarrow> string \<Rightarrow> string \<Rightarrow> bool" where
  "topic_pattern t g1 g2 rest \<longleftrightarrow>
     t = g1 @ '' ('' @ g2 @ '')'' @ rest \<and> g1 \<noteq> [] \<and> CHR ''('' \<notin> set g1
     \<and> g2 \<noteq> [] \<and> CHR '')'' \<notin> set g2"

section \<open>Evaluation and helper facts\<close>

lemmas eval_defs =
  standardized_concept_uri_def standardize_text_def canonical_lang_def canonical_lang_with_def lower_def
  lower_char_def LCODE_ALIASES_def model_collab_def simple_tokenize_model_def
  is_word_char_def replace_underscores_def concept_uri_model_def english_filter_model_def
  topic_to_concept_def re_match_topic_def valid_concept_name_def split_uri_model_def
  startswith_def

lemma split_on_append:
  "c \<notin> set w \<Longrightarrow> split_on c (w @ c # r) = w # split_on c r"
  by (induction w) (auto split: list.splits)

section \<open>Canonical language codes\<close>

text \<open>
  The case mapping of single characters: a character is kept or becomes a small letter,
  so a byte with the top bit set is never the image of another character.
\<close>

lemma lower_not_high: "\<forall>l \<in> set ''abcdefghijklmnopqrstuvwxyz''. \<not> digit7 l"
  by (simp only: set_simps ball_simps, simp)

lemma lower_letters_fixed: "\<forall>l \<in> set ''abcdefghijklmnopqrstuvwxyz''. lower_char l = l"
  by (simp only: set_simps ball_simps, simp add: lower_char_def)

lemma lower_char_cases:
  "lower_char a = a \<or> lower_char a \<in> set ''abcdefghijklmnopqrstuvwxyz''"
proof (cases "map_of (zip ''ABCDEFGHIJKLMNOPQRSTUVWXYZ'' ''abcdefghijklmnopqrstuvwxyz'') a")
  case None
  show ?thesis unfolding lower_char_def None by simp
next
  case (Some l)
  then have "(a, l) \<in> set (zip ''ABCDEFGHIJKLMNOPQRSTUVWXYZ'' ''abcdefghijklmnopqrstuvwxyz'')"
    by (rule map_of_SomeD)
  then have "l \<in> set ''abcdefghijklmnopqrstuvwxyz''" by (rule set_zip_rightD)
  moreover have "lower_char a = l" unfolding lower_char_def Some by simp
  ultimately show ?thesis by simp
qed

lemma lower_char_idem: "lower_char (lower_char c) = lower_char c"
  using lower_char_cases [of c] lower_letters_fixed by auto

lemma lower_char_eq_high: "digit7 (lower_char a) \<Longrightarrow> lower_char a = a"
  using lower_char_cases [of a] lower_not_high by blast

lemma lower_idem: "lower (lower s) = lower s"
  by (simp add: lower_def lower_char_idem)


lemma aliases_values:
  "\<forall>(k, v) \<in> set LCODE_ALIASES. is_ascii v \<and> lower v = v \<and> map_of LCODE_ALIASES v = None"
  by (simp add: LCODE_ALIASES_def is_ascii_def lower_def lower_char_def)

lemma canonical_lang_with_idem:
  assumes L: "lowers_like_python L"
  shows "canonical_lang_with L (canonical_lang_with L code) = canonical_lang_with L code"
proof (cases "map_of LCODE_ALIASES (L code)")
  case None
  from L have "L (L code) = L code" by (simp add: lowers_like_python_def)
  with None show ?thesis by (simp add: canonical_lang_with_def)
next
  case (Some v)
  then have "(L code, v) \<in> set LCODE_ALIASES" by (rule map_of_SomeD)
  with aliases_values have v: "is_ascii v \<and> lower v = v \<and> map_of LCODE_ALIASES v = None"
    by blast
  with L have "L v = v" by (simp add: lowers_like_python_def)
  with Some v show ?thesis by (simp add: canonical_lang_with_def)
qed

lemma aliases_values_with:
  assumes L: "lowers_like_python L"
  shows "\<forall>(k, v) \<in> set LCODE_ALIASES. L v = v \<and> map_of LCODE_ALIASES v = None"
proof -
  have "L v = v \<and> map_of LCODE_ALIASES v = None" if "(k, v) \<in> set LCODE_ALIASES" for k v
  proof -
    from that aliases_values
    have v: "is_ascii v \<and> lower v = v \<and> map_of LCODE_ALIASES v = None" by blast
    with L have "L v = v" by (simp add: lowers_like_python_def)
    with v show ?thesis by simp
  qed
  then show ?thesis by blast
qed

lemma lowers_like_python_lower: "lowers_like_python lower"
  by (simp add: lowers_like_python_def lower_idem)

lemma lower_kelvin_step:
  "lower_kelvin (x # t) =
     (if x = CHR 0xE2 \<and> take 2 t = [CHR 0x84, CHR 0xAA] then CHR ''k'' # lower_kelvin (drop 2 t)
      else lower_char x # lower_kelvin t)"
proof (cases t)
  case Nil
  then show ?thesis by simp
next
  case (Cons b t')
  then show ?thesis by (cases t') simp_all
qed

lemma lower_kelvin_high_head:
  assumes "lower_kelvin t = x # r" and "digit7 x"
  shows "\<exists>t'. t = x # t' \<and> r = lower_kelvin t'
              \<and> \<not> (x = CHR 0xE2 \<and> take 2 t' = [CHR 0x84, CHR 0xAA])"
proof (cases t)
  case Nil
  with assms show ?thesis by simp
next
  case (Cons a t')
  show ?thesis
  proof (cases "a = CHR 0xE2 \<and> take 2 t' = [CHR 0x84, CHR 0xAA]")
    case True
    then have "lower_kelvin (a # t') = CHR ''k'' # lower_kelvin (drop 2 t')"
      by (simp only: lower_kelvin_step if_P if_True)
    with Cons assms(1) have "x = CHR ''k''" by simp
    with assms(2) show ?thesis by simp
  next
    case False
    then have "lower_kelvin (a # t') = lower_char a # lower_kelvin t'"
      by (simp only: lower_kelvin_step if_not_P if_False)
    with Cons assms(1) have eq: "lower_char a = x" "lower_kelvin t' = r" by simp_all
    with assms(2) lower_char_eq_high [of a] have "a = x" by simp
    with Cons eq False show ?thesis by simp
  qed
qed

lemma lower_kelvin_no_sign:
  "lower_kelvin s \<noteq> CHR 0xE2 # CHR 0x84 # CHR 0xAA # r"
proof
  assume "lower_kelvin s = CHR 0xE2 # CHR 0x84 # CHR 0xAA # r"
  from lower_kelvin_high_head [OF this] obtain t1 where
    t1: "s = CHR 0xE2 # t1" "CHR 0x84 # CHR 0xAA # r = lower_kelvin t1"
        "take 2 t1 \<noteq> [CHR 0x84, CHR 0xAA]" by auto
  from lower_kelvin_high_head [OF t1(2) [symmetric]] obtain t2 where
    t2: "t1 = CHR 0x84 # t2" "CHR 0xAA # r = lower_kelvin t2" by auto
  from lower_kelvin_high_head [OF t2(2) [symmetric]] obtain t3 where
    t3: "t2 = CHR 0xAA # t3" by auto
  from t1(3) t2(1) t3 show False by simp
qed

lemma lower_kelvin_idem: "lower_kelvin (lower_kelvin s) = lower_kelvin s"
proof (induction s rule: length_induct)
  case (1 s)
  show ?case
  proof (cases s)
    case Nil
    then show ?thesis by simp
  next
    case (Cons a t)
    show ?thesis
    proof (cases "a = CHR 0xE2 \<and> take 2 t = [CHR 0x84, CHR 0xAA]")
      case True
      then have "lower_kelvin (a # t) = CHR ''k'' # lower_kelvin (drop 2 t)"
        by (simp only: lower_kelvin_step if_P if_True)
      with Cons have s: "lower_kelvin s = CHR ''k'' # lower_kelvin (drop 2 t)" by simp
      from Cons have "length (drop 2 t) < length s" by simp
      with 1 have "lower_kelvin (lower_kelvin (drop 2 t)) = lower_kelvin (drop 2 t)" by blast
      moreover have "lower_char CHR ''k'' = CHR ''k''" by (simp add: lower_char_def)
      ultimately show ?thesis unfolding s by (simp add: lower_kelvin_step)
    next
      case False
      then have "lower_kelvin (a # t) = lower_char a # lower_kelvin t"
        by (simp only: lower_kelvin_step if_not_P if_False)
      with Cons have s: "lower_kelvin s = lower_char a # lower_kelvin t" by simp
      from Cons have "length t < length s" by simp
      with 1 have IH: "lower_kelvin (lower_kelvin t) = lower_kelvin t" by blast
      have "\<not> (lower_char a = CHR 0xE2 \<and> take 2 (lower_kelvin t) = [CHR 0x84, CHR 0xAA])"
      proof
        assume A: "lower_char a = CHR 0xE2 \<and> take 2 (lower_kelvin t) = [CHR 0x84, CHR 0xAA]"
        then have "lower_kelvin t = CHR 0x84 # CHR 0xAA # drop 2 (lower_kelvin t)"
          by (metis append_take_drop_id append_Cons append_Nil)
        with A s have "lower_kelvin s = CHR 0xE2 # CHR 0x84 # CHR 0xAA # drop 2 (lower_kelvin t)"
          by simp
        with lower_kelvin_no_sign show False by blast
      qed
      then have "lower_kelvin (lower_char a # lower_kelvin t)
                   = lower_char (lower_char a) # lower_kelvin (lower_kelvin t)"
        by (simp only: lower_kelvin_step if_not_P if_False)
      then show ?thesis unfolding s by (simp add: IH lower_char_idem)
    qed
  qed
qed

lemma lower_kelvin_ascii: "is_ascii s \<Longrightarrow> lower_kelvin s = lower s"
proof (induction s)
  case Nil
  then show ?case by (simp add: lower_def)
next
  case (Cons a s)
  then have "\<not> digit7 a" "is_ascii s" by (simp_all add: is_ascii_def)
  then have "a \<noteq> CHR 0xE2" by auto
  with Cons \<open>is_ascii s\<close> show ?case by (simp add: lower_kelvin_step lower_def)
qed

lemma lowers_like_python_lower_kelvin: "lowers_like_python lower_kelvin"
  by (simp add: lowers_like_python_def lower_kelvin_idem lower_kelvin_ascii)

lemma canonical_lang_idem: "canonical_lang (canonical_lang code) = canonical_lang code"
  unfolding canonical_lang_def
  using lowers_like_python_lower by (rule canonical_lang_with_idem)

text \<open>
  C4. Canonicalizing a language code (lowercase, then replace through \<^verbatim>\<open>LCODE_ALIASES\<close>
  when the code is a key) is idempotent, for every string; and every value stored in
  \<^verbatim>\<open>LCODE_ALIASES\<close> is lowercase and is not itself a key of the table. The statement
  holds for every lowercasing function that is idempotent and is the ASCII case mapping
  on ASCII strings, as \<^verbatim>\<open>str.lower\<close> is: the values of the table are ASCII, so they are
  fixed by it whatever it does to the rest of Unicode.
\<close>

theorem canonical_lang_idempotent:
  assumes "lowers_like_python str_lower"
  shows "canonical_lang_with str_lower (canonical_lang_with str_lower code)
           = canonical_lang_with str_lower code
         \<and> (\<forall>(k, v) \<in> set LCODE_ALIASES. str_lower v = v \<and> map_of LCODE_ALIASES v = None)"
  using assms canonical_lang_with_idem aliases_values_with by blast

text \<open>
  The theorem with a lowercasing function that maps the Kelvin sign to \<^verbatim>\<open>k\<close>: the code
  \<^verbatim>\<open>c\<close>, Kelvin sign, \<^verbatim>\<open>b\<close> lowercases to \<^verbatim>\<open>ckb\<close>, a key of the table, and is
  canonicalized to \<^verbatim>\<open>ku\<close>.
\<close>

theorem canonical_lang_idempotent_witness:
  "canonical_lang_with lower_kelvin
     (canonical_lang_with lower_kelvin [CHR ''c'', CHR 0xE2, CHR 0x84, CHR 0xAA, CHR ''b''])
     = canonical_lang_with lower_kelvin [CHR ''c'', CHR 0xE2, CHR 0x84, CHR 0xAA, CHR ''b'']
   \<and> canonical_lang_with lower_kelvin [CHR ''c'', CHR 0xE2, CHR 0x84, CHR 0xAA, CHR ''b''] = ''ku''
   \<and> canonical_lang_with lower_kelvin ''ZH_TW'' = ''zh''
   \<and> (''ckb'', ''ku'') \<in> set LCODE_ALIASES
   \<and> lower_kelvin ''ku'' = ''ku'' \<and> map_of LCODE_ALIASES ''ku'' = None"
  using canonical_lang_idempotent [OF lowers_like_python_lower_kelvin,
          of "[CHR ''c'', CHR 0xE2, CHR 0x84, CHR 0xAA, CHR ''b'']"]
  by (simp add: canonical_lang_with_def lower_char_def LCODE_ALIASES_def)

section \<open>The concept URI builder\<close>

text \<open>
  C1. The English filter is chosen by comparing the argument as passed with \<^verbatim>\<open>en\<close>,
  before it is lowercased: for the code \<^verbatim>\<open>EN\<close>, whose canonical form is \<^verbatim>\<open>en\<close>, the
  main text and every qualifier are standardized with no filter, while for \<^verbatim>\<open>en\<close> they
  go through the English filter. On the text \<^verbatim>\<open>a big dog\<close> the two identifiers differ.
\<close>

theorem standardized_concept_uri_EN_unfiltered:
  "standardized_concept_uri C ''EN'' text more' =
     concept_uri C ''en'' (standardize_text C text None)
       (concat (map (\<lambda>item. case item of None \<Rightarrow> [] | Some i \<Rightarrow> [standardize_text C i None]) more'))
   \<and> standardized_concept_uri C ''en'' text more' =
     concept_uri C ''en'' (standardize_text C text (Some (english_filter C)))
       (concat (map (\<lambda>item. case item of None \<Rightarrow> []
                               | Some i \<Rightarrow> [standardize_text C i (Some (english_filter C))]) more'))
   \<and> canonical_lang ''EN'' = ''en''
   \<and> standardized_concept_uri (model_collab single_uri) ''EN'' ''a big dog'' [] = ''/c/en/a_big_dog''
   \<and> standardized_concept_uri (model_collab single_uri) ''en'' ''a big dog'' [] = ''/c/en/big_dog''"
proof -
  have c: "canonical_lang ''EN'' = ''en''" "canonical_lang ''en'' = ''en''"
    by (simp_all add: canonical_lang_def canonical_lang_with_def lower_def lower_char_def LCODE_ALIASES_def)
  have a: "standardized_concept_uri (model_collab single_uri) ''EN'' ''a big dog'' [] = ''/c/en/a_big_dog''"
    by (simp add: eval_defs)
  have b: "standardized_concept_uri (model_collab single_uri) ''en'' ''a big dog'' [] = ''/c/en/big_dog''"
    by (simp add: eval_defs)
  have g1: "standardized_concept_uri C ''EN'' text more' =
     concept_uri C ''en'' (standardize_text C text None)
       (concat (map (\<lambda>item. case item of None \<Rightarrow> [] | Some i \<Rightarrow> [standardize_text C i None]) more'))"
    by (simp add: standardized_concept_uri_def Let_def c)
  have g2: "standardized_concept_uri C ''en'' text more' =
     concept_uri C ''en'' (standardize_text C text (Some (english_filter C)))
       (concat (map (\<lambda>item. case item of None \<Rightarrow> []
                               | Some i \<Rightarrow> [standardize_text C i (Some (english_filter C))]) more'))"
    by (simp add: standardized_concept_uri_def Let_def c)
  from g1 g2 c(1) a b show ?thesis by (intro conjI)
qed

section \<open>Valid concept names\<close>

text \<open>
  C7. \<^verbatim>\<open>valid_concept_name(text)\<close> is true exactly when \<^verbatim>\<open>standardize_text(text)\<close>
  with no token filter is a non-empty string. With the reference tokenizer it is false
  for a comma, a slash, a space and an underscore, and true for \<^verbatim>\<open>word\<close> and for the
  stopword \<^verbatim>\<open>the\<close>.
\<close>

theorem valid_concept_name_iff:
  "valid_concept_name C text = (standardize_text C text None \<noteq> [])
   \<and> \<not> valid_concept_name (model_collab single_uri) '',''
   \<and> \<not> valid_concept_name (model_collab single_uri) ''/''
   \<and> \<not> valid_concept_name (model_collab single_uri) '' ''
   \<and> \<not> valid_concept_name (model_collab single_uri) ''_''
   \<and> valid_concept_name (model_collab single_uri) ''word''
   \<and> valid_concept_name (model_collab single_uri) ''the''"
proof -
  have "\<not> valid_concept_name (model_collab single_uri) '',''" by (simp add: eval_defs)
  moreover have "\<not> valid_concept_name (model_collab single_uri) ''/''" by (simp add: eval_defs)
  moreover have "\<not> valid_concept_name (model_collab single_uri) '' ''" by (simp add: eval_defs)
  moreover have "\<not> valid_concept_name (model_collab single_uri) ''_''" by (simp add: eval_defs)
  moreover have "valid_concept_name (model_collab single_uri) ''word''" by (simp add: eval_defs)
  moreover have "valid_concept_name (model_collab single_uri) ''the''" by (simp add: eval_defs)
  ultimately show ?thesis by (simp add: valid_concept_name_def)
qed

section \<open>Topics\<close>

lemma replace_underscores_idem: "replace_underscores (replace_underscores t) = replace_underscores t"
  by (simp add: replace_underscores_def)

lemma standardize_text_replace:
  "standardize_text C (replace_underscores t) f = standardize_text C t f"
  by (simp add: standardize_text_def replace_underscores_idem)

lemma standardized_concept_uri_replace:
  "standardized_concept_uri C lang (replace_underscores t) more' = standardized_concept_uri C lang t more'"
  by (simp add: standardized_concept_uri_def standardize_text_replace)

lemma re_match_topic_complete:
  assumes "topic_pattern t g1 g2 rest"
  shows "re_match_topic t = Some (g1, g2)"
proof -
  from assms have t: "t = g1 @ CHR '' '' # CHR ''('' # (g2 @ CHR '')'' # rest)"
    and g1: "g1 \<noteq> []" "CHR ''('' \<notin> set g1" and g2: "g2 \<noteq> []" "CHR '')'' \<notin> set g2"
    by (simp_all add: topic_pattern_def)
  have p: "\<And>x. x \<in> set g1 \<Longrightarrow> x \<noteq> CHR ''(''" using g1 by auto
  have tw: "takeWhile (\<lambda>c. c \<noteq> CHR ''('') t = g1 @ '' ''"
    unfolding t by (subst takeWhile_append2) (simp_all add: p)
  have dw: "dropWhile (\<lambda>c. c \<noteq> CHR ''('') t = CHR ''('' # (g2 @ CHR '')'' # rest)"
    unfolding t by (subst dropWhile_append2) (simp_all add: p)
  have q: "\<And>x. x \<in> set g2 \<Longrightarrow> x \<noteq> CHR '')''" using g2 by auto
  have tw2: "takeWhile (\<lambda>c. c \<noteq> CHR '')'') (g2 @ CHR '')'' # rest) = g2"
    by (subst takeWhile_append2) (simp_all add: q)
  have dw2: "dropWhile (\<lambda>c. c \<noteq> CHR '')'') (g2 @ CHR '')'' # rest) = CHR '')'' # rest"
    by (subst dropWhile_append2) (simp_all add: q)
  have l: "\<not> length (g1 @ '' '') < 2" using g1 by (cases g1) auto
  show ?thesis
    unfolding re_match_topic_def Let_def tw dw using l g2 by (simp add: tw2 dw2)
qed

lemma re_match_topic_sound:
  assumes "re_match_topic t = Some (g1, g2)"
  shows "\<exists>rest. topic_pattern t g1 g2 rest"
proof -
  let ?b = "takeWhile (\<lambda>c. c \<noteq> CHR ''('') t"
  let ?f = "dropWhile (\<lambda>c. c \<noteq> CHR ''('') t"
  let ?i = "takeWhile (\<lambda>c. c \<noteq> CHR '')'') (tl ?f)"
  let ?c = "dropWhile (\<lambda>c. c \<noteq> CHR '')'') (tl ?f)"
  from assms have f: "?f \<noteq> []" and lb: "2 \<le> length ?b" and la: "last ?b = CHR '' ''"
    and i: "?i \<noteq> []" and c: "?c \<noteq> []" and g1: "g1 = butlast ?b" and g2: "g2 = ?i"
    by (auto simp: re_match_topic_def Let_def split: if_splits)
  from lb have bne: "?b \<noteq> []" by auto
  then have b: "?b = g1 @ '' ''" using la g1 append_butlast_last_id [of ?b] by simp
  from f have hf: "hd ?f = CHR ''(''" using hd_dropWhile [of "\<lambda>c. c \<noteq> CHR ''(''" t] by simp
  with f have fe: "?f = CHR ''('' # tl ?f" by (cases ?f) auto
  from c have hc: "hd ?c = CHR '')''" using hd_dropWhile [of "\<lambda>c. c \<noteq> CHR '')''" "tl ?f"] by simp
  with c have ce: "?c = CHR '')'' # tl ?c" by (cases ?c) auto
  have "t = ?b @ ?f" by simp
  also have "?f = CHR ''('' # (?i @ ?c)" using fe by simp
  finally have t: "t = g1 @ '' ('' @ g2 @ '')'' @ tl ?c"
    using b ce g2 by simp
  have n1: "g1 \<noteq> []" using lb g1 by (cases ?b rule: rev_cases) auto
  have "set g1 \<subseteq> set ?b" using b by auto
  then have s1: "CHR ''('' \<notin> set g1" using set_takeWhileD [of "CHR ''(''" "\<lambda>c. c \<noteq> CHR ''(''" t] by auto
  have s2: "CHR '')'' \<notin> set g2" using g2 set_takeWhileD [of "CHR '')''" "\<lambda>c. c \<noteq> CHR '')''" "tl ?f"] by auto
  from t n1 s1 i g2 s2 have "topic_pattern t g1 g2 (tl ?c)" by (simp add: topic_pattern_def)
  then show ?thesis ..
qed

text \<open>
  C5. \<^verbatim>\<open>topic_to_concept\<close> replaces underscores with spaces and matches the pattern
  at the start of the string. When the string has the shape of the pattern, whatever
  follows the closing parenthesis, the result is \<^verbatim>\<open>standardized_concept_uri\<close> of the
  part before the parenthesis with the qualifiers \<^verbatim>\<open>n\<close>, \<^verbatim>\<open>wp\<close> and the text inside
  the parentheses; when it has not, the result is \<^verbatim>\<open>standardized_concept_uri\<close> of the
  topic with no qualifier. With the reference collaborators the topic
  \<^verbatim>\<open>Township (United States)\<close> gives \<^verbatim>\<open>/c/en/township/n/wp/united_states\<close>.
\<close>

theorem topic_to_concept_cases:
  "(\<forall>g1 g2 rest. topic_pattern (replace_underscores topic) g1 g2 rest \<longrightarrow>
      topic_to_concept C language topic
        = standardized_concept_uri C language g1 [Some ''n'', Some ''wp'', Some g2])
   \<and> ((\<forall>g1 g2 rest. \<not> topic_pattern (replace_underscores topic) g1 g2 rest) \<longrightarrow>
      topic_to_concept C language topic = standardized_concept_uri C language topic [])
   \<and> topic_to_concept (model_collab single_uri) ''en'' ''Township (United States)''
        = ''/c/en/township/n/wp/united_states''"
proof (intro conjI allI impI)
  fix g1 g2 rest
  assume "topic_pattern (replace_underscores topic) g1 g2 rest"
  then have "re_match_topic (replace_underscores topic) = Some (g1, g2)"
    by (rule re_match_topic_complete)
  then show "topic_to_concept C language topic
        = standardized_concept_uri C language g1 [Some ''n'', Some ''wp'', Some g2]"
    by (simp add: topic_to_concept_def)
next
  assume n: "\<forall>g1 g2 rest. \<not> topic_pattern (replace_underscores topic) g1 g2 rest"
  have "re_match_topic (replace_underscores topic) = None"
  proof (cases "re_match_topic (replace_underscores topic)")
    case None then show ?thesis .
  next
    case (Some p)
    then obtain g1 g2 where "re_match_topic (replace_underscores topic) = Some (g1, g2)"
      by (cases p) auto
    from re_match_topic_sound [OF this] n show ?thesis by blast
  qed
  then show "topic_to_concept C language topic = standardized_concept_uri C language topic []"
    by (simp add: topic_to_concept_def standardized_concept_uri_replace)
next
  show "topic_to_concept (model_collab single_uri) ''en'' ''Township (United States)''
        = ''/c/en/township/n/wp/united_states''"
    by (simp add: eval_defs)
qed

text \<open>
  The theorem at a topic with an underscore and trailing characters, which matches, and
  at a topic with no space before the parenthesis, which does not.
\<close>

theorem topic_to_concept_cases_witness:
  "topic_pattern (replace_underscores ''Foo_(bar) extra'') ''Foo'' ''bar'' '' extra''
   \<and> topic_to_concept (model_collab single_uri) ''en'' ''Foo_(bar) extra''
       = standardized_concept_uri (model_collab single_uri) ''en'' ''Foo'' [Some ''n'', Some ''wp'', Some ''bar'']
   \<and> re_match_topic (replace_underscores ''Foo(bar)'') = None
   \<and> topic_to_concept (model_collab single_uri) ''en'' ''Foo(bar)''
       = standardized_concept_uri (model_collab single_uri) ''en'' ''Foo(bar)'' []"
proof -
  have p: "topic_pattern (replace_underscores ''Foo_(bar) extra'') ''Foo'' ''bar'' '' extra''"
    by (simp add: topic_pattern_def replace_underscores_def)
  have m: "re_match_topic (replace_underscores ''Foo(bar)'') = None"
    by (simp add: re_match_topic_def replace_underscores_def)
  then have n: "\<forall>g1 g2 rest. \<not> topic_pattern (replace_underscores ''Foo(bar)'') g1 g2 rest"
    using re_match_topic_complete by fastforce
  show ?thesis
    using p n m topic_to_concept_cases [of "''Foo_(bar) extra''" "model_collab single_uri" "''en''"]
      topic_to_concept_cases [of "''Foo(bar)''" "model_collab single_uri" "''en''"]
    by blast
qed

section \<open>The language of an identifier\<close>

lemma startswith_c_not_a: "startswith uri ''/c/'' \<Longrightarrow> \<not> startswith uri ''/a/''"
  by (auto simp: startswith_def)

text \<open>
  On a string of neither shape the result is Python's \<^verbatim>\<open>None\<close>, whatever the
  collaborators are.
\<close>

lemma get_uri_language_other_shape:
  "\<not> startswith uri ''/a/'' \<Longrightarrow> \<not> startswith uri ''/c/''
     \<Longrightarrow> get_uri_language C uri = Some (Inr None)"
  by (subst get_uri_language.simps) simp

text \<open>
  C8. \<^verbatim>\<open>get_uri_language\<close> dispatches on the shape of the identifier: on a string
  that starts with \<^verbatim>\<open>/a/\<close> it is \<^verbatim>\<open>get_uri_language\<close> of the first sub-identifier
  that the compound parser returns, and on a string that starts with \<^verbatim>\<open>/c/\<close> it is the
  second segment of \<^verbatim>\<open>split_uri\<close>, as it stands.
\<close>

theorem get_uri_language_dispatch:
  "(startswith uri ''/a/'' \<and> parse_possible_compound_uri C ''a'' uri = s # ss
      \<longrightarrow> get_uri_language C uri = get_uri_language C s)
   \<and> (startswith uri ''/c/'' \<and> split_uri C uri = a # l # rest
      \<longrightarrow> get_uri_language C uri = Some (Inr (Some l)))"
proof (intro conjI impI)
  assume "startswith uri ''/a/'' \<and> parse_possible_compound_uri C ''a'' uri = s # ss"
  then show "get_uri_language C uri = get_uri_language C s"
    by (subst get_uri_language.simps) simp
next
  assume h: "startswith uri ''/c/'' \<and> split_uri C uri = a # l # rest"
  then have "\<not> startswith uri ''/a/''" by (simp add: startswith_c_not_a)
  with h show "get_uri_language C uri = Some (Inr (Some l))"
    by (subst get_uri_language.simps) simp
qed

text \<open>
  The theorem at a nested assertion and at a concept identifier, with the stand-in
  parser for compounds of one sub-identifier.
\<close>

theorem get_uri_language_dispatch_witness:
  "startswith ''/a/a/c/en/cat'' ''/a/''
   \<and> parse_possible_compound_uri (model_collab first_nested) ''a'' ''/a/a/c/en/cat''
       = [''/a/c/en/cat'']
   \<and> get_uri_language (model_collab first_nested) ''/a/a/c/en/cat''
       = get_uri_language (model_collab first_nested) ''/a/c/en/cat''
   \<and> startswith ''/c/en/cat'' ''/c/''
   \<and> split_uri (model_collab first_nested) ''/c/en/cat'' = [''c'', ''en'', ''cat'']
   \<and> get_uri_language (model_collab first_nested) ''/c/en/cat'' = Some (Inr (Some ''en''))"
proof -
  have h1: "startswith ''/a/a/c/en/cat'' ''/a/''
      \<and> parse_possible_compound_uri (model_collab first_nested) ''a'' ''/a/a/c/en/cat''
           = ''/a/c/en/cat'' # []"
    by (simp add: startswith_def model_collab_def first_nested_def)
  have h2: "startswith ''/c/en/cat'' ''/c/''
      \<and> split_uri (model_collab first_nested) ''/c/en/cat'' = ''c'' # ''en'' # [''cat'']"
    by (simp add: startswith_def model_collab_def split_uri_model_def)
  have t1: "get_uri_language (model_collab first_nested) ''/a/a/c/en/cat''
       = get_uri_language (model_collab first_nested) ''/a/c/en/cat''"
    using get_uri_language_dispatch [of "''/a/a/c/en/cat''" "model_collab first_nested"
        "''/a/c/en/cat''" "[]"] h1 by blast
  have t2: "get_uri_language (model_collab first_nested) ''/c/en/cat'' = Some (Inr (Some ''en''))"
    using get_uri_language_dispatch [of "''/c/en/cat''" "model_collab first_nested" _ _
        "''c''" "''en''" "[''cat'']"] h2 by blast
  show ?thesis using h1 h2 t1 t2 by simp
qed

lemma concept_uri_model_shape:
  "concept_uri_model lang text more' =
     CHR ''/'' # CHR ''c'' # CHR ''/'' # (lang @ CHR ''/'' # join ''/'' (text # more'))"
  by (simp add: concept_uri_model_def)

lemma get_uri_language_concept_uri_model:
  assumes "CHR ''/'' \<notin> set lang"
  shows "get_uri_language (model_collab p) (concept_uri_model lang text more')
           = Some (Inr (Some lang))"
proof -
  let ?u = "concept_uri_model lang text more'"
  have a: "\<not> startswith ?u ''/a/''" and c: "startswith ?u ''/c/''"
    by (simp_all add: concept_uri_model_shape startswith_def)
  have "split_uri_model ?u = ''c'' # lang # split_on CHR ''/'' (join ''/'' (text # more'))"
    using assms split_on_append [of "CHR ''/''" lang]
    by (simp add: concept_uri_model_shape split_uri_model_def)
  then show ?thesis
    using a c by (subst get_uri_language.simps) (simp add: model_collab_def)
qed

text \<open>
  C2, as amended. With the reference \<^verbatim>\<open>concept_uri\<close> and \<^verbatim>\<open>split_uri\<close>: for every
  language code whose canonical form holds no slash, every text and all qualifiers,
  \<^verbatim>\<open>get_uri_language\<close> of the identifier that \<^verbatim>\<open>standardized_concept_uri\<close> builds is
  the canonical form of the code.
\<close>

theorem get_uri_language_roundtrip:
  "CHR ''/'' \<notin> set (canonical_lang lang) \<Longrightarrow>
   get_uri_language (model_collab p) (standardized_concept_uri (model_collab p) lang text more')
     = Some (Inr (Some (canonical_lang lang)))"
  using get_uri_language_concept_uri_model [of "canonical_lang lang" p]
  by (simp add: standardized_concept_uri_def Let_def model_collab_def)

text \<open>
  The theorem at the code \<^verbatim>\<open>ZH_TW\<close>, whose canonical form is \<^verbatim>\<open>zh\<close>.
\<close>

theorem get_uri_language_roundtrip_witness:
  "CHR ''/'' \<notin> set (canonical_lang ''ZH_TW'')
   \<and> canonical_lang ''ZH_TW'' = ''zh''
   \<and> get_uri_language (model_collab single_uri)
       (standardized_concept_uri (model_collab single_uri) ''ZH_TW'' ''Cat'' [Some ''n''])
     = Some (Inr (Some ''zh''))"
proof -
  have c: "canonical_lang ''ZH_TW'' = ''zh''"
    by (simp add: canonical_lang_def canonical_lang_with_def lower_def lower_char_def LCODE_ALIASES_def)
  then have h: "CHR ''/'' \<notin> set (canonical_lang ''ZH_TW'')" by simp
  show ?thesis
    using h c get_uri_language_roundtrip [OF h, of single_uri "''Cat''" "[Some ''n'']"] by simp
qed

text \<open>
  C2 as stated fails for a code with a slash: the identifier built for the code
  \<^verbatim>\<open>a/b\<close> is \<^verbatim>\<open>/c/a/b/cat\<close>, and the language read back from it is \<^verbatim>\<open>a\<close>.
\<close>

theorem get_uri_language_roundtrip_counterexample:
  "get_uri_language (model_collab single_uri)
     (standardized_concept_uri (model_collab single_uri) ''a/b'' ''cat'' [])
     = Some (Inr (Some ''a''))
   \<and> canonical_lang ''a/b'' = ''a/b''
   \<and> standardized_concept_uri (model_collab single_uri) ''a/b'' ''cat'' [] = ''/c/a/b/cat''"
proof -
  have u: "standardized_concept_uri (model_collab single_uri) ''a/b'' ''cat'' [] = ''/c/a/b/cat''"
    by (simp add: eval_defs)
  have c: "canonical_lang ''a/b'' = ''a/b''"
    by (simp add: canonical_lang_def canonical_lang_with_def lower_def lower_char_def LCODE_ALIASES_def)
  have g: "get_uri_language (model_collab single_uri) ''/c/a/b/cat'' = Some (Inr (Some ''a''))"
    by (subst get_uri_language.simps) (simp add: model_collab_def split_uri_model_def startswith_def)
  show ?thesis using u c g by simp
qed

section \<open>The deprecated entry point\<close>

text \<open>
  C10. \<^verbatim>\<open>standardized_concept_name\<close> and its alias \<^verbatim>\<open>normalized_concept_name\<close> raise
  \<^verbatim>\<open>NotImplementedError\<close> on every input, with a message that names
  \<^verbatim>\<open>standardize_text\<close> as the replacement; no input makes them return a value.
\<close>

theorem standardized_concept_name_raises:
  "standardized_concept_name lang text =
     Inl (NotImplementedError
       ''standardized_concept_name has been removed. Use standardize_text instead.'')
   \<and> normalized_concept_name lang text = standardized_concept_name lang text
   \<and> standardized_concept_name lang text \<noteq> Inr r
   \<and> normalized_concept_name lang text \<noteq> Inr r"
  by (simp add: standardized_concept_name_def normalized_concept_name_def)

end
